theory Spec2Isabelle
  imports Main "HOL-Library.Word"
begin

unbundle bit_operations_syntax

section \<open>Effects of the host language\<close>

text \<open>
  The callbacks handed to the Result combinators are ordinary TypeScript functions: they
  may read and write state (a call-counting spy does), and they may throw. A call
  therefore maps the state before it to a completion (a returned value or a thrown one)
  and the state after it. The state type \<open>'s\<close> and the type \<open>'x\<close> of thrown values are
  parameters wherever the code does not fix them.
\<close>

datatype ('x, 'a) completion = Normal 'a | Throw 'x

fun raises :: "('x, 'a) completion \<Rightarrow> bool" where
  "raises (Normal a) = False"
| "raises (Throw x) = True"

type_synonym ('s, 'x, 'a) js = "'s \<Rightarrow> ('x, 'a) completion \<times> 's"

text \<open>\<^verbatim>\<open>return a;\<close>\<close>
definition js_return :: "'a \<Rightarrow> ('s, 'x, 'a) js" where
  "js_return a = (\<lambda>s. (Normal a, s))"

text \<open>\<^verbatim>\<open>throw x;\<close>\<close>
definition js_throw :: "'x \<Rightarrow> ('s, 'x, 'a) js" where
  "js_throw x = (\<lambda>s. (Throw x, s))"

text \<open>
  \<^verbatim>\<open>const a = m(); ... k(a)\<close>: evaluation order of the host language. A throw in
  \<open>m\<close> skips \<open>k\<close>.
\<close>
definition js_bind :: "('s, 'x, 'a) js \<Rightarrow> ('a \<Rightarrow> ('s, 'x, 'b) js) \<Rightarrow> ('s, 'x, 'b) js" where
  "js_bind m k = (\<lambda>s. case m s of
                        (Normal a, s') \<Rightarrow> k a s'
                      | (Throw x, s') \<Rightarrow> (Throw x, s'))"

text \<open>\<^verbatim>\<open>try { m } catch (err) { h(err) }\<close>\<close>
definition js_try :: "('s, 'x, 'a) js \<Rightarrow> ('x \<Rightarrow> ('s, 'y, 'a) js) \<Rightarrow> ('s, 'y, 'a) js" where
  "js_try m h = (\<lambda>s. case m s of
                       (Normal a, s') \<Rightarrow> (Normal a, s')
                     | (Throw x, s') \<Rightarrow> h x s')"

text \<open>A callback without effects: \<^verbatim>\<open>(x) => f(x)\<close> for a pure \<open>f\<close>.\<close>
definition pure :: "('a \<Rightarrow> 'b) \<Rightarrow> 'a \<Rightarrow> ('s, 'x, 'b) js" where
  "pure f = (\<lambda>a. js_return (f a))"


section \<open>Values of the host language\<close>

text \<open>
  \<open>fromNullable\<close> takes a parameter of type \<^verbatim>\<open>any\<close> and tests it with \<^verbatim>\<open>if(nullable)\<close>,
  so its model needs the runtime values and their conversion to a boolean. A number is
  an IEEE 754 double, kept as its 64 bits; an object is a reference into the store.
\<close>

datatype jsval =
    JUndefined
  | JNull
  | JBoolean bool
  | JNumber "64 word"
  | JBigInt int
  | JString string
  | JSymbol nat
  | JObject nat

text \<open>The two zeros of a double: every bit but the sign is clear.\<close>
definition isZero :: "64 word \<Rightarrow> bool" where
  "isZero w = (w AND 0x7FFFFFFFFFFFFFFF = 0)"

text \<open>A NaN: the exponent is all ones and the fraction is not zero.\<close>
definition isNaN :: "64 word \<Rightarrow> bool" where
  "isNaN w = (w AND 0x7FF0000000000000 = 0x7FF0000000000000 \<and> w AND 0x000FFFFFFFFFFFFF \<noteq> 0)"

text \<open>The conversion the condition of an \<^verbatim>\<open>if\<close> applies to its operand.\<close>
fun ToBoolean :: "jsval \<Rightarrow> bool" where
  "ToBoolean JUndefined = False"
| "ToBoolean JNull = False"
| "ToBoolean (JBoolean b) = b"
| "ToBoolean (JNumber w) = (\<not> isZero w \<and> \<not> isNaN w)"
| "ToBoolean (JBigInt i) = (i \<noteq> 0)"
| "ToBoolean (JString s) = (s \<noteq> [])"
| "ToBoolean (JSymbol n) = True"
| "ToBoolean (JObject a) = True"

text \<open>
  The store holds the objects; a reference is an index into it. The only objects this
  module creates itself are instances of \<^verbatim>\<open>Error\<close>.
\<close>

datatype jsobj =
    ErrorObject (message: string)
  | PlainObject "(string \<times> jsval) list"

type_synonym store = "jsobj list"

text \<open>A value that exists in a store: a reference points into it.\<close>
fun allocated :: "store \<Rightarrow> jsval \<Rightarrow> bool" where
  "allocated h (JObject a) = (a < length h)"
| "allocated h v = True"

text \<open>\<^verbatim>\<open>new Error(msg)\<close>: a new object at the next free address.\<close>
definition new_Error :: "string \<Rightarrow> (store, 'x, jsval) js" where
  "new_Error msg = (\<lambda>h. (Normal (JObject (length h)), h @ [ErrorObject msg]))"


section \<open>The Result type\<close>

text \<open>
  \<^verbatim>\<open>type Result<E, V> = _Err<E, V> | _Ok<E, V>\<close>. The constructors stand for the classes
  and for the factory functions \<open>Err\<close> and \<open>Ok\<close>, which only call \<^verbatim>\<open>new\<close>.
\<close>

datatype ('e, 'v) result = Err (err: 'e) | Ok (val: 'v)

text \<open>The field \<^verbatim>\<open>readonly kind\<close> of the two classes.\<close>
fun kind :: "('e, 'v) result \<Rightarrow> string" where
  "kind (Err e) = ''Err''"
| "kind (Ok v) = ''Ok''"

subsection \<open>Methods\<close>

fun fmap :: "('e, 'v) result \<Rightarrow> ('v \<Rightarrow> ('s, 'x, 'w) js) \<Rightarrow> ('s, 'x, ('e, 'w) result) js" where
  "fmap (Err e) fmapFunction = js_return (Err e)"
| "fmap (Ok v) fmapFunction = js_bind (fmapFunction v) (\<lambda>w. js_return (Ok w))"

text \<open>
  The source types the callback of \<open>bind\<close> and \<open>seq\<close> as returning any \<^verbatim>\<open>Monad<Vo>\<close>;
  here it returns a Result with the same error type, the case the library is used in.
\<close>

fun bind :: "('e, 'v) result \<Rightarrow> ('v \<Rightarrow> ('s, 'x, ('e, 'w) result) js)
               \<Rightarrow> ('s, 'x, ('e, 'w) result) js" where
  "bind (Err e) bindFun = js_return (Err e)"
| "bind (Ok v) bindFun = bindFun v"

fun seq :: "('e, 'v) result \<Rightarrow> ('s, 'x, ('e, 'w) result) js \<Rightarrow> ('s, 'x, ('e, 'w) result) js" where
  "seq (Err e) sequenceFunction = js_return (Err e)"
| "seq (Ok v) sequenceFunction = sequenceFunction"

text \<open>The argument of \<open>then\<close>: \<^verbatim>\<open>BindFunction<V, Vo> | SequenceFunction<Vo>\<close>.\<close>
datatype ('s, 'x, 'e, 'v, 'w) bind_or_sequence =
    BindFunction "'v \<Rightarrow> ('s, 'x, ('e, 'w) result) js"
  | SequenceFunction "('s, 'x, ('e, 'w) result) js"

text \<open>
  \<open>then\<close>. On \<open>_Ok\<close> it calls \<^verbatim>\<open>defaultThen\<close>, which the package fts-monad exports and
  this repository does not contain: it is the parameter \<open>defaultThen\<close>.
\<close>
fun then_result ::
  "('v \<Rightarrow> ('s, 'x, 'e, 'v, 'w) bind_or_sequence \<Rightarrow> ('s, 'x, ('e, 'w) result) js)
     \<Rightarrow> ('e, 'v) result \<Rightarrow> ('s, 'x, 'e, 'v, 'w) bind_or_sequence
     \<Rightarrow> ('s, 'x, ('e, 'w) result) js" where
  "then_result defaultThen (Err e) bindOrSequenceFunction = js_return (Err e)"
| "then_result defaultThen (Ok v) bindOrSequenceFunction = defaultThen v bindOrSequenceFunction"

fun mapErr :: "('e, 'v) result \<Rightarrow> ('e \<Rightarrow> ('s, 'x, 'f) js) \<Rightarrow> ('s, 'x, ('f, 'v) result) js" where
  "mapErr (Err e) errMapFun = js_bind (errMapFun e) (\<lambda>e'. js_return (Err e'))"
| "mapErr (Ok v) errMapFun = js_return (Ok v)"

subsection \<open>A chain of method calls\<close>

text \<open>
  \<^verbatim>\<open>r.fmap(f).then(g).fmap(h)\<close>: each call is made on the result of the one before it.
  The calls of a chain are kept in a list, so they share one value type.
\<close>

datatype ('s, 'x, 'e, 'v) method_call =
    CallFmap "'v \<Rightarrow> ('s, 'x, 'v) js"
  | CallBind "'v \<Rightarrow> ('s, 'x, ('e, 'v) result) js"
  | CallSeq "('s, 'x, ('e, 'v) result) js"
  | CallThen "('s, 'x, 'e, 'v, 'v) bind_or_sequence"

fun call_method ::
  "('v \<Rightarrow> ('s, 'x, 'e, 'v, 'v) bind_or_sequence \<Rightarrow> ('s, 'x, ('e, 'v) result) js)
     \<Rightarrow> ('e, 'v) result \<Rightarrow> ('s, 'x, 'e, 'v) method_call \<Rightarrow> ('s, 'x, ('e, 'v) result) js" where
  "call_method defaultThen r (CallFmap f) = fmap r f"
| "call_method defaultThen r (CallBind f) = bind r f"
| "call_method defaultThen r (CallSeq g) = seq r g"
| "call_method defaultThen r (CallThen fn) = then_result defaultThen r fn"

fun chain ::
  "('v \<Rightarrow> ('s, 'x, 'e, 'v, 'v) bind_or_sequence \<Rightarrow> ('s, 'x, ('e, 'v) result) js)
     \<Rightarrow> ('e, 'v) result \<Rightarrow> ('s, 'x, 'e, 'v) method_call list \<Rightarrow> ('s, 'x, ('e, 'v) result) js" where
  "chain defaultThen r [] = js_return r"
| "chain defaultThen r (c # cs) =
     js_bind (call_method defaultThen r c) (\<lambda>r'. chain defaultThen r' cs)"

subsection \<open>Free functions\<close>

fun unbox :: "('e, 'v) result \<Rightarrow> ('v \<Rightarrow> ('s, 'x, 'r) js) \<Rightarrow> ('e \<Rightarrow> ('s, 'x, 'r) js)
                \<Rightarrow> ('s, 'x, 'r) js" where
  "unbox (Ok v) okCallback errCallback = okCallback v"
| "unbox (Err e) okCallback errCallback = errCallback e"

definition isOk :: "('e, 'v) result \<Rightarrow> bool" where
  "isOk r = (kind r = ''Ok'')"

definition isErr :: "('e, 'v) result \<Rightarrow> bool" where
  "isErr r = (\<not> isOk r)"

definition fromNullable :: "jsval \<Rightarrow> 'e \<Rightarrow> ('e, jsval) result" where
  "fromNullable nullable errorIfNull =
     (if ToBoolean nullable then Ok nullable else Err errorIfNull)"

definition fromException :: "('s, 'x, 'v) js \<Rightarrow> ('s, 'y, ('x, 'v) result) js" where
  "fromException exceptionRaisingFunction =
     js_try (js_bind exceptionRaisingFunction (\<lambda>v. js_return (Ok v)))
            (\<lambda>e. js_return (Err e))"

definition fromOk :: "('e, 'v) result \<Rightarrow> ('s, 'e, 'v) js" where
  "fromOk r = unbox r (\<lambda>v. js_return v) (\<lambda>e. js_throw e)"

definition fromErr :: "('e, 'v) result \<Rightarrow> (store, jsval, 'e) js" where
  "fromErr r =
     unbox r
       (\<lambda>v. js_bind (new_Error ''fromErr was called with an Ok Result'') (\<lambda>x. js_throw x))
       (\<lambda>e. js_return e)"


section \<open>Observing calls\<close>

text \<open>
  A spy wraps a callback and writes its label to a log each time the callback is called,
  before the callback runs. The log is one more component of the state, so it is
  observed like any other effect.
\<close>

definition spy :: "'l \<Rightarrow> ('a \<Rightarrow> ('s, 'x, 'b) js) \<Rightarrow> 'a \<Rightarrow> ('l list \<times> 's, 'x, 'b) js" where
  "spy l f = (\<lambda>a (log, s). case f a s of (c, s') \<Rightarrow> (c, (log @ [l], s')))"

text \<open>The same for a function without parameters, \<^verbatim>\<open>() => ...\<close>.\<close>
definition spy0 :: "'l \<Rightarrow> ('s, 'x, 'b) js \<Rightarrow> ('l list \<times> 's, 'x, 'b) js" where
  "spy0 l g = (\<lambda>(log, s). case g s of (c, s') \<Rightarrow> (c, (log @ [l], s')))"

text \<open>The calls a run has logged.\<close>
definition calls :: "('x, 'a) completion \<times> ('l list \<times> 's) \<Rightarrow> 'l list" where
  "calls out = fst (snd out)"

text \<open>A method call whose callback is spied on.\<close>
fun spy_call :: "'l \<Rightarrow> ('s, 'x, 'e, 'v) method_call \<Rightarrow> ('l list \<times> 's, 'x, 'e, 'v) method_call" where
  "spy_call l (CallFmap f) = CallFmap (spy l f)"
| "spy_call l (CallBind f) = CallBind (spy l f)"
| "spy_call l (CallSeq g) = CallSeq (spy0 l g)"
| "spy_call l (CallThen (BindFunction f)) = CallThen (BindFunction (spy l f))"
| "spy_call l (CallThen (SequenceFunction g)) = CallThen (SequenceFunction (spy0 l g))"


section \<open>The effect combinators\<close>

lemma js_bind_return_left: "js_bind (js_return a) k = k a"
  by (simp add: js_bind_def js_return_def)

lemma js_bind_return_right: "js_bind m js_return = m"
  by (rule ext) (simp add: js_bind_def js_return_def split: prod.splits completion.splits)

lemma js_bind_assoc: "js_bind (js_bind m k) l = js_bind m (\<lambda>a. js_bind (k a) l)"
  by (rule ext) (simp add: js_bind_def split: prod.splits completion.splits)

lemma js_bind_throw: "js_bind (js_throw x) k = js_throw x"
  by (simp add: js_bind_def js_throw_def)

lemma js_bind_return_run:
  "js_bind m (\<lambda>a. js_return (f a)) s =
     (case m s of (Normal a, s') \<Rightarrow> (Normal (f a), s') | (Throw x, s') \<Rightarrow> (Throw x, s'))"
  by (simp add: js_bind_def js_return_def split: prod.splits completion.splits)

lemma calls_spy: "calls (spy l f a (log, s)) = log @ [l]"
  by (simp add: calls_def spy_def split: prod.splits)

lemma calls_spy0: "calls (spy0 l g (log, s)) = log @ [l]"
  by (simp add: calls_def spy0_def split: prod.splits)

lemma calls_return: "calls (js_return a (log, s)) = log"
  by (simp add: calls_def js_return_def)

lemma calls_js_bind_return: "calls (js_bind m (\<lambda>a. js_return (f a)) st) = calls (m st)"
  by (simp add: calls_def js_bind_def js_return_def split: prod.splits completion.splits)


section \<open>Laws of the value channel\<close>

text \<open>
  The two functor laws hold for callbacks with effects as well: the effects of \<open>f\<close> and
  \<open>g\<close> happen in the same order on both sides.
\<close>

lemma fmap_identity: "fmap r js_return = js_return r"
  by (cases r) (simp_all add: js_bind_return_left)

lemma fmap_composition: "js_bind (fmap r f) (\<lambda>r'. fmap r' g) = fmap r (\<lambda>x. js_bind (f x) g)"
  by (cases r) (simp_all add: js_bind_return_left js_bind_assoc)

text \<open>
  C1. \<open>fmap\<close> satisfies the functor laws. For every value \<open>v\<close>, error \<open>e\<close> and pure
  functions \<open>f\<close> and \<open>g\<close>: \<^verbatim>\<open>Ok(v).fmap(x => x)\<close> is \<^verbatim>\<open>Ok(v)\<close>, \<^verbatim>\<open>Err(e).fmap(x => x)\<close> is
  \<^verbatim>\<open>Err(e)\<close>, and \<^verbatim>\<open>Ok(v).fmap(f).fmap(g)\<close> is \<^verbatim>\<open>Ok(v).fmap(x => g(f(x)))\<close>. Equality is
  between computations: the same completion and the same final state from every state.
\<close>

theorem fmap_functor_laws:
  "fmap (Ok v) (pure (\<lambda>x. x)) = js_return (Ok v)
   \<and> fmap (Err e) (pure (\<lambda>x. x)) = js_return (Err e)
   \<and> js_bind (fmap (Ok v) (pure f)) (\<lambda>r. fmap r (pure g)) = fmap (Ok v) (pure (\<lambda>x. g (f x)))"
  by (simp add: pure_def js_bind_return_left)


section \<open>Laws of dependent chaining\<close>

text \<open>
  C2. \<open>bind\<close> satisfies left identity and associativity. For every value \<open>v\<close>, Result
  \<open>m\<close> and Result-returning functions \<open>f\<close> and \<open>g\<close> (with any effects):
  \<^verbatim>\<open>Ok(v).bind(f)\<close> is \<^verbatim>\<open>f(v)\<close>, and \<^verbatim>\<open>(m.bind(f)).bind(g)\<close> is
  \<^verbatim>\<open>m.bind(v => f(v).bind(g))\<close>.
\<close>

theorem bind_monad_laws:
  "bind (Ok v) f = f v
   \<and> js_bind (bind m f) (\<lambda>r. bind r g) = bind m (\<lambda>v. js_bind (f v) (\<lambda>r. bind r g))"
  by (cases m) (simp_all add: js_bind_return_left)


section \<open>Failure is absorbing\<close>

lemma call_method_Err: "call_method defaultThen (Err e) c = js_return (Err e)"
  by (cases c) simp_all

lemma chain_Err: "chain defaultThen (Err e) cs = js_return (Err e)"
  by (induction cs) (simp_all add: call_method_Err js_bind_return_left)

text \<open>
  C3. For every error \<open>e\<close> and every sequence \<open>cs\<close> of \<open>fmap\<close>, \<open>bind\<close>, \<open>seq\<close> and \<open>then\<close>
  calls made on \<^verbatim>\<open>Err(e)\<close>, the outcome is the Failure carrying \<open>e\<close>, and no callback is
  called: whatever the callbacks would do, the state is left as it was, and when every
  callback is spied on, the log of calls stays empty.
\<close>

theorem failure_absorbing:
  "chain defaultThen (Err e) cs s = (Normal (Err e), s)
   \<and> chain defaultThen' (Err e) (map (spy_call l) cs) ([], s) = (Normal (Err e), ([], s))
   \<and> calls (chain defaultThen' (Err e) (map (spy_call l) cs) ([], s)) = []"
  by (simp add: chain_Err calls_return) (simp add: js_return_def)

text \<open>
  The scenario of the README, with \<open>bind\<close> for the middle step: the first two callbacks
  run once each, the third never.
\<close>

lemma chain_example:
  "chain defaultThen (Ok (5::int))
     [CallFmap (spy ''add'' (pure (\<lambda>v. v + 2))),
      CallBind (spy ''wrong'' (\<lambda>v. js_return (Err ''Something is wrong''))),
      CallFmap (spy ''div'' h)] ([], s)
   = (Normal (Err ''Something is wrong''), ([''add'', ''wrong''], s))"
  by (simp add: chain_Err js_bind_def js_return_def spy_def pure_def)


section \<open>Construction from a nullable value\<close>

text \<open>
  C4. \<open>fromNullable nullable errorIfNull\<close> is \<^verbatim>\<open>Ok(nullable)\<close> exactly when \<open>nullable\<close> is
  truthy, and \<^verbatim>\<open>Err(errorIfNull)\<close> otherwise. So it is \<^verbatim>\<open>Err(errorIfNull)\<close> for \<^verbatim>\<open>null\<close>
  and \<^verbatim>\<open>undefined\<close>, and also for the number 0, for NaN, for the empty string and for
  \<^verbatim>\<open>false\<close>; for the number 12 (the double \<open>0x4028000000000000\<close>) it is \<^verbatim>\<open>Ok(12)\<close>.
\<close>

theorem fromNullable_truthiness:
  "(fromNullable n e = Ok n) = ToBoolean n
   \<and> (fromNullable n e = Err e) = (\<not> ToBoolean n)
   \<and> fromNullable JNull e = Err e
   \<and> fromNullable JUndefined e = Err e
   \<and> fromNullable (JNumber 0) e = Err e
   \<and> fromNullable (JNumber 0x7FF8000000000000) e = Err e
   \<and> fromNullable (JString []) e = Err e
   \<and> fromNullable (JBoolean False) e = Err e
   \<and> fromNullable (JNumber 0x4028000000000000) e = Ok (JNumber 0x4028000000000000)"
  by (simp add: fromNullable_def isZero_def isNaN_def)


section \<open>Elimination\<close>

text \<open>
  C5. \<open>unbox\<close> is the universal eliminator. On \<^verbatim>\<open>Ok(v)\<close> it is the call \<open>okFn v\<close> and
  \<open>errFn\<close> is not called; on \<^verbatim>\<open>Err(e)\<close> it is the call \<open>errFn e\<close> and \<open>okFn\<close> is not called.
  With both callbacks spied on, the log holds exactly one call, the one the tag selects.
\<close>

theorem unbox_eliminator:
  "unbox (Ok v) okFn errFn = okFn v
   \<and> unbox (Err e) okFn errFn = errFn e
   \<and> calls (unbox (Ok v) (spy ''okFn'' okFn') (spy ''errFn'' errFn') ([], s)) = [''okFn'']
   \<and> calls (unbox (Err e) (spy ''okFn'' okFn') (spy ''errFn'' errFn') ([], s)) = [''errFn'']"
  by (simp add: calls_spy)


section \<open>Construction from a function that throws\<close>

text \<open>
  C6. For every function \<open>fn\<close> without parameters: when \<open>fn()\<close> returns \<open>v\<close>,
  \<open>fromException fn\<close> returns \<^verbatim>\<open>Ok(v)\<close>; when \<open>fn()\<close> throws \<open>x\<close>, it returns \<^verbatim>\<open>Err(x)\<close>,
  with that same thrown value; in both cases the state is the one \<open>fn\<close> left, and
  \<open>fromException\<close> never throws.
\<close>

theorem fromException_catches:
  "(fn s = (Normal v, s') \<longrightarrow> fromException fn s = (Normal (Ok v), s'))
   \<and> (fn s = (Throw x, s') \<longrightarrow> fromException fn s = (Normal (Err x), s'))
   \<and> \<not> raises (fst (fromException fn s))"
  by (simp add: fromException_def js_try_def js_bind_def js_return_def
           split: prod.splits completion.splits)

theorem fromException_catches_witness:
  "fromException (js_return 5 :: (nat, jsval, int) js) 0
     = ((Normal (Ok 5), 0) :: (jsval, (jsval, int) result) completion \<times> nat)
   \<and> fromException (js_throw (JObject 0) :: (store, jsval, int) js) [ErrorObject ''x'']
     = ((Normal (Err (JObject 0)), [ErrorObject ''x''])
          :: (jsval, (jsval, int) result) completion \<times> store)"
proof (intro conjI)
  show "fromException (js_return 5 :: (nat, jsval, int) js) 0
     = ((Normal (Ok 5), 0) :: (jsval, (jsval, int) result) completion \<times> nat)"
    by (rule fromException_catches [THEN conjunct1, THEN mp]) (simp add: js_return_def)
  show "fromException (js_throw (JObject 0) :: (store, jsval, int) js) [ErrorObject ''x'']
     = ((Normal (Err (JObject 0)), [ErrorObject ''x''])
          :: (jsval, (jsval, int) result) completion \<times> store)"
    by (rule fromException_catches [THEN conjunct2, THEN conjunct1, THEN mp])
       (simp add: js_throw_def)
qed


section \<open>Unwrapping\<close>

lemma fromErr_Ok:
  "fromErr (Ok v) h =
     (Throw (JObject (length h)), h @ [ErrorObject ''fromErr was called with an Ok Result''])"
  by (simp add: fromErr_def js_bind_def js_throw_def new_Error_def)

lemma allocated_not_next: "allocated h p \<Longrightarrow> p \<noteq> JObject (length h)"
  by (cases p) simp_all

text \<open>
  C7. \<open>fromOk\<close> returns \<open>v\<close> on \<^verbatim>\<open>Ok(v)\<close> and throws \<open>e\<close> itself on \<^verbatim>\<open>Err(e)\<close>. \<open>fromErr\<close>
  returns \<open>e\<close> on \<^verbatim>\<open>Err(e)\<close>; on \<^verbatim>\<open>Ok(v)\<close> it throws a new \<^verbatim>\<open>Error\<close> object with the
  message "fromErr was called with an Ok Result". That object is at an address the store
  did not have, so it differs from every value \<open>p\<close> that existed before the call, and from
  the wrapped value \<open>w\<close> when that is such a value. \<open>fromOk\<close> throws on a Failure only and
  \<open>fromErr\<close> on a Success only.
\<close>

theorem fromOk_fromErr_raise:
  "fromOk (Ok v) s = (Normal v, s)
   \<and> fromOk (Err e) s = (Throw e, s)
   \<and> fromErr (Err e) h = (Normal e, h)
   \<and> fromErr (Ok v) h =
       (Throw (JObject (length h)), h @ [ErrorObject ''fromErr was called with an Ok Result''])
   \<and> (allocated h p \<longrightarrow> fst (fromErr (Ok v) h) \<noteq> Throw p)
   \<and> (allocated h w \<longrightarrow> fst (fromErr (Ok w) h) \<noteq> Throw w)
   \<and> raises (fst (fromOk r s)) = isErr r
   \<and> raises (fst (fromErr r' h)) = isOk r'"
proof -
  have "fromOk (Ok v) s = (Normal v, s)" and "fromOk (Err e) s = (Throw e, s)"
    by (simp_all add: fromOk_def js_return_def js_throw_def)
  moreover have "fromErr (Err e) h = (Normal e, h)"
    by (simp add: fromErr_def js_return_def)
  moreover have "allocated h q \<longrightarrow> fst (fromErr (Ok u) h) \<noteq> Throw q" for q and u :: 'u
    using allocated_not_next [of h q] by (auto simp: fromErr_Ok)
  moreover have "raises (fst (fromOk r s)) = isErr r"
    by (cases r) (simp_all add: fromOk_def js_return_def js_throw_def isErr_def isOk_def)
  moreover have "raises (fst (fromErr r' h)) = isOk r'"
    by (cases r') (simp_all add: fromErr_Ok isOk_def, simp add: fromErr_def js_return_def)
  ultimately show ?thesis
    by (simp add: fromErr_Ok)
qed

theorem fromOk_fromErr_raise_witness:
  "allocated [ErrorObject ''m''] (JObject 0)
   \<and> fst (fromErr (Ok (5::int) :: (jsval, int) result) [ErrorObject ''m'']) \<noteq> Throw (JObject 0)
   \<and> fst (fromErr (Ok (JObject 0) :: (jsval, jsval) result) [ErrorObject ''m''])
       \<noteq> Throw (JObject 0)"
proof -
  have h: "allocated [ErrorObject ''m''] (JObject 0)"
    by simp
  have "fst (fromErr (Ok (5::int) :: (jsval, int) result) [ErrorObject ''m'']) \<noteq> Throw (JObject 0)"
    using h by (rule fromOk_fromErr_raise
        [THEN conjunct2, THEN conjunct2, THEN conjunct2, THEN conjunct2, THEN conjunct1, THEN mp])
  moreover have "fst (fromErr (Ok (JObject 0) :: (jsval, jsval) result) [ErrorObject ''m''])
       \<noteq> Throw (JObject 0)"
    using h by (rule fromOk_fromErr_raise
        [THEN conjunct2, THEN conjunct2, THEN conjunct2, THEN conjunct2, THEN conjunct2,
         THEN conjunct1, THEN mp])
  ultimately show ?thesis
    using h by simp
qed


section \<open>The error channel\<close>

text \<open>
  C8. For every error \<open>e\<close> and pure function \<open>f\<close>, \<^verbatim>\<open>Err(e).mapErr(f)\<close> is the Failure
  carrying \<open>f e\<close>; for a callback \<open>g\<close> with effects it is the Failure carrying what the
  call \<open>g e\<close> returns (and it throws what \<open>g e\<close> throws). For every value \<open>v\<close>,
  \<^verbatim>\<open>Ok(v).mapErr(g)\<close> is the Success carrying \<open>v\<close> and \<open>g\<close> is not called; on a Failure it
  is called once.
\<close>

theorem mapErr_error_channel:
  "mapErr (Err e) (pure f) = js_return (Err (f e))
   \<and> mapErr (Err e) g s =
       (case g e s of (Normal e', s') \<Rightarrow> (Normal (Err e'), s') | (Throw x, s') \<Rightarrow> (Throw x, s'))
   \<and> mapErr (Ok v) g = js_return (Ok v)
   \<and> calls (mapErr (Ok v) (spy ''errMapFun'' g) ([], s)) = []
   \<and> calls (mapErr (Err e) (spy ''errMapFun'' g) ([], s)) = [''errMapFun'']"
proof -
  have "mapErr (Err e) (pure f) = js_return (Err (f e))"
    by (simp add: pure_def js_bind_return_left)
  moreover have "mapErr (Err e) g s =
      (case g e s of (Normal e', s') \<Rightarrow> (Normal (Err e'), s') | (Throw x, s') \<Rightarrow> (Throw x, s'))"
    by (simp add: js_bind_return_run)
  moreover have "mapErr (Ok v) g = js_return (Ok v)"
    by simp
  moreover have "calls (mapErr (Ok v) (spy ''errMapFun'' g) ([], s)) = []"
    by (simp add: calls_return)
  moreover have "calls (mapErr (Err e) (spy ''errMapFun'' g) ([], s)) = [''errMapFun'']"
    by (simp add: calls_js_bind_return calls_spy)
  ultimately show ?thesis
    by blast
qed


section \<open>Sequencing without the value\<close>

text \<open>
  C9. For every value \<open>v\<close> and function \<open>g\<close> without parameters, \<^verbatim>\<open>Ok(v).seq(g)\<close> is the
  call \<open>g()\<close>, whatever \<open>v\<close> is, and \<open>g\<close> is called once. For every error \<open>e\<close>,
  \<^verbatim>\<open>Err(e).seq(g)\<close> is the Failure carrying \<open>e\<close> and \<open>g\<close> is not called.
\<close>

theorem seq_ignores_value:
  "seq (Ok v) g = g
   \<and> seq (Ok v) g = seq (Ok v') g
   \<and> seq (Err e) g = js_return (Err e)
   \<and> calls (seq (Ok v) (spy0 ''sequenceFunction'' g) ([], s)) = [''sequenceFunction'']
   \<and> calls (seq (Err e) (spy0 ''sequenceFunction'' g) ([], s)) = []"
  by (simp add: calls_return calls_spy0)


section \<open>Inspection\<close>

text \<open>
  C10. \<open>isOk r\<close> holds exactly when \<open>r\<close> is a Success, and \<open>isErr r\<close> is the negation of
  \<open>isOk r\<close>. So \<open>isOk\<close> holds and \<open>isErr\<close> fails on every \<^verbatim>\<open>Ok(v)\<close>, and \<open>isErr\<close> holds
  and \<open>isOk\<close> fails on every \<^verbatim>\<open>Err(e)\<close>.
\<close>

theorem isOk_isErr_tag:
  "isOk r = (\<exists>v. r = Ok v)
   \<and> isErr r = (\<not> isOk r)
   \<and> isErr r = (\<exists>e. r = Err e)
   \<and> isOk (Ok v) \<and> \<not> isErr (Ok v)
   \<and> isErr (Err e) \<and> \<not> isOk (Err e)"
  by (cases r) (simp_all add: isOk_def isErr_def)

end
